theory Spec2Isabelle
  imports
    Complex_Main
    "HOL-Library.Multiset"
    "HOL-Library.Char_ord"
    "HOL-Library.List_Lexorder"
    "HOL-Library.Product_Lexorder"
begin

section \<open>Data model\<close>

text \<open>
  One row of \<^verbatim>\<open>renewable_dataset.csv\<close> as \<^verbatim>\<open>load_data\<close> returns it. A cell that is
  empty in the file is a missing value (NaN) of the data frame: \<open>None\<close>. \<open>Year\<close> is the
  key that \<^verbatim>\<open>main\<close> sorts, filters and animates by; it is a plain integer here (the
  data model requires Year values to be comparable and sortable). Floating-point columns
  are real numbers: rounding is not modelled.
\<close>

record household =
  Year :: int
  Country :: "string option"
  Energy_Source :: "string option"
  Monthly_Usage_kWh :: "real option"
  Cost_Savings_USD :: "real option"
  Income_Level :: "string option"
  Household_Size :: "int option"
  Urban_Rural :: "string option"
  Adoption_Year :: "int option"

datatype error = KeyError | ValueError

section \<open>The data-frame operations that \<^verbatim>\<open>main\<close> calls\<close>

text \<open>\<^verbatim>\<open>dropna\<close>: the values of a column that are present.\<close>

definition dropna :: "'a option list \<Rightarrow> 'a list" where
  "dropna col = List.map_filter (\<lambda>v. v) col"

text \<open>\<^verbatim>\<open>Series.unique()\<close>: the distinct values, in order of first appearance.\<close>

fun unique :: "'a list \<Rightarrow> 'a list" where
  "unique [] = []"
| "unique (x # xs) = x # unique (filter (\<lambda>y. y \<noteq> x) xs)"

text \<open>
  \<^verbatim>\<open>groupby(keys)\<close> with its defaults \<^verbatim>\<open>sort=True, dropna=True\<close>: rows with a missing
  key are left out, and the groups come in ascending key order, one per key value that
  occurs.
\<close>

definition groupby :: "('r \<Rightarrow> 'k::linorder option) \<Rightarrow> 'r list \<Rightarrow> ('k \<times> 'r list) list" where
  "groupby key rows =
     map (\<lambda>k. (k, filter (\<lambda>r. key r = Some k) rows)) (sort (unique (dropna (map key rows))))"

text \<open>
  \<^verbatim>\<open>.mean()\<close> of one group: the sum of the values present over their number, and a
  missing value (NaN) when none is present.
\<close>

definition mean :: "real option list \<Rightarrow> real option" where
  "mean col = (let vs = dropna col in
     if vs = [] then None else Some (sum_list vs / real (length vs)))"

text \<open>
  \<^verbatim>\<open>Series.mode()\<close> with its default \<^verbatim>\<open>dropna=True\<close>: the values present that occur
  most often, sorted ascending; no value when none is present.
\<close>

definition mode :: "'a::linorder option list \<Rightarrow> 'a list" where
  "mode col = (let vs = dropna col in
     if vs = [] then []
     else sort (filter (\<lambda>v. count_list vs v = Max (set (map (count_list vs) vs))) (unique vs)))"

text \<open>\<^verbatim>\<open>lambda x: x.mode()[0]\<close>: label 0 of the modes, a \<^verbatim>\<open>KeyError\<close> when there is none.\<close>

definition mode0 :: "'a::linorder option list \<Rightarrow> error + 'a" where
  "mode0 col = (case mode col of [] \<Rightarrow> Inl KeyError | m # _ \<Rightarrow> Inr m)"

text \<open>
  \<^verbatim>\<open>.agg(f)\<close> calls \<open>f\<close> on every group in turn; an exception raised for one group
  ends the whole aggregation.
\<close>

fun agg :: "('g \<Rightarrow> error + 'v) \<Rightarrow> ('k \<times> 'g) list \<Rightarrow> error + ('k \<times> 'v) list" where
  "agg f [] = Inr []"
| "agg f ((k, g) # groups) =
     (case f g of
        Inl e \<Rightarrow> Inl e
      | Inr v \<Rightarrow> (case agg f groups of Inl e \<Rightarrow> Inl e | Inr out \<Rightarrow> Inr ((k, v) # out)))"

text \<open>
  \<^verbatim>\<open>Series.value_counts()\<close> with its defaults: missing values are not counted, and the
  (value, count) pairs come by descending count.
\<close>

definition value_counts :: "'a option list \<Rightarrow> ('a \<times> int) list" where
  "value_counts col = (let vs = dropna col in
     sort_key (\<lambda>(v, c). - c) (map (\<lambda>v. (v, int (count_list vs v))) (unique vs)))"

text \<open>\<^verbatim>\<open>Series.cumsum()\<close>: the running sum, started at \<open>acc\<close>.\<close>

fun cumsum_from :: "int \<Rightarrow> int list \<Rightarrow> int list" where
  "cumsum_from acc [] = []"
| "cumsum_from acc (x # xs) = (acc + x) # cumsum_from (acc + x) xs"

definition cumsum :: "int list \<Rightarrow> int list" where
  "cumsum xs = cumsum_from 0 xs"

text \<open>\<^verbatim>\<open>pd.concat(frames)\<close> raises \<^verbatim>\<open>ValueError\<close> ("No objects to concatenate") on an empty list.\<close>

definition pd_concat :: "'r list list \<Rightarrow> error + 'r list" where
  "pd_concat frames = (if frames = [] then Inl ValueError else Inr (concat frames))"

section \<open>The transforms of \<^verbatim>\<open>main\<close>\<close>

text \<open>
  Each transform takes the table \<^verbatim>\<open>data\<close> as line 19 leaves it, or a column of it, and
  is stated for every table.
\<close>

subsection \<open>Bar charts: group means (lines 38 and 66)\<close>

definition avg_usage :: "household list \<Rightarrow> ((int \<times> string) \<times> real option) list" where
  "avg_usage data =
     map (\<lambda>(k, g). (k, mean (map Monthly_Usage_kWh g)))
       (groupby (\<lambda>r. map_option (\<lambda>e. (Year r, e)) (Energy_Source r)) data)"

definition avg_savings :: "household list \<Rightarrow> ((int \<times> string) \<times> real option) list" where
  "avg_savings data =
     map (\<lambda>(k, g). (k, mean (map Cost_Savings_USD g)))
       (groupby (\<lambda>r. map_option (\<lambda>l. (Year r, l)) (Income_Level r)) data)"

subsection \<open>Cumulative adoption (lines 94 to 112)\<close>

text \<open>
  The adoption table has the columns \<^verbatim>\<open>Year\<close>, \<^verbatim>\<open>Count\<close> and \<^verbatim>\<open>Cumulative_Count\<close>; its
  \<^verbatim>\<open>Year\<close> column is the field \<open>AYear\<close> here, the name \<open>Year\<close> being the field of
  \<open>household\<close>. The expanded table has the column \<^verbatim>\<open>Animation_Year\<close> as well.
\<close>

record adoption_row =
  AYear :: int
  Count :: int
  Cumulative_Count :: int

record expanded_row = adoption_row +
  Animation_Year :: int

text \<open>
  Lines 94 to 99. Line 98 sorts by \<^verbatim>\<open>Year\<close>; the values of that column are distinct
  after \<^verbatim>\<open>value_counts\<close>, so the sorted table is the one ascending arrangement of the
  rows, whatever order they come in (lemma \<open>sort_key_distinct_keys\<close>).
\<close>

definition adoption_years :: "int option list \<Rightarrow> adoption_row list" where
  "adoption_years col = (let counts = sort_key fst (value_counts col) in
     map (\<lambda>((y, c), cc). \<lparr>AYear = y, Count = c, Cumulative_Count = cc\<rparr>)
       (zip counts (cumsum (map snd counts))))"

text \<open>Lines 106 and 107: the rows up to \<open>year\<close>, tagged with it.\<close>

definition temp_data :: "adoption_row list \<Rightarrow> int \<Rightarrow> expanded_row list" where
  "temp_data table year =
     map (\<lambda>r. adoption_row.extend r (expanded_row.fields year))
       (filter (\<lambda>r. AYear r \<le> year) table)"

text \<open>Lines 102 to 110: the frames of all years, concatenated.\<close>

definition expanded_adoption_data :: "adoption_row list \<Rightarrow> error + expanded_row list" where
  "expanded_adoption_data table =
     (let all_years = sort (unique (map AYear table)) in
      pd_concat (map (temp_data table) all_years))"

text \<open>
  \<^verbatim>\<open>astype(int)\<close> on a column of integers converts to \<^verbatim>\<open>int64\<close> the way the array
  library casts integers: a value of the \<^verbatim>\<open>int64\<close> range is kept, a larger value of an
  unsigned column wraps around.
\<close>

definition astype_int :: "int \<Rightarrow> int" where
  "astype_int y = (y + 2 ^ 63) mod 2 ^ 64 - 2 ^ 63"

text \<open>
  Lines 111 and 112: \<^verbatim>\<open>expanded_adoption_data\<close> with its columns \<^verbatim>\<open>Year\<close> and
  \<^verbatim>\<open>Animation_Year\<close> converted.
\<close>

definition expanded_adoption_data_int :: "adoption_row list \<Rightarrow> error + expanded_row list" where
  "expanded_adoption_data_int table =
     (case expanded_adoption_data table of
        Inl e \<Rightarrow> Inl e
      | Inr frame \<Rightarrow>
          Inr (map (\<lambda>r. r\<lparr>AYear := astype_int (AYear r),
                            Animation_Year := astype_int (Animation_Year r)\<rparr>) frame))"

subsection \<open>Map with filter (lines 155 to 163)\<close>

text \<open>The five entries of the \<^verbatim>\<open>variables\<close> select box (line 151).\<close>

datatype variable =
  V_Monthly_Usage_kWh | V_Cost_Savings_USD | V_Household_Size | V_Income_Level | V_Urban_Rural

datatype cell = Num real | Str string | NaN

definition numeric_column :: "variable \<Rightarrow> household \<Rightarrow> real option" where
  "numeric_column v r =
     (case v of
        V_Monthly_Usage_kWh \<Rightarrow> Monthly_Usage_kWh r
      | V_Cost_Savings_USD \<Rightarrow> Cost_Savings_USD r
      | V_Household_Size \<Rightarrow> map_option real_of_int (Household_Size r)
      | _ \<Rightarrow> None)"

definition categorical_column :: "variable \<Rightarrow> household \<Rightarrow> string option" where
  "categorical_column v r =
     (case v of
        V_Income_Level \<Rightarrow> Income_Level r
      | V_Urban_Rural \<Rightarrow> Urban_Rural r
      | _ \<Rightarrow> None)"

definition to_cell :: "real option \<Rightarrow> cell" where
  "to_cell m = (case m of None \<Rightarrow> NaN | Some x \<Rightarrow> Num x)"

definition filtered_data :: "household list \<Rightarrow> int \<Rightarrow> household list" where
  "filtered_data data selected_year = filter (\<lambda>r. Year r = selected_year) data"

definition country_avg :: "household list \<Rightarrow> int \<Rightarrow> variable \<Rightarrow> error + (string \<times> cell) list" where
  "country_avg data selected_year selected_variable =
     (let groups = groupby Country (filtered_data data selected_year) in
      if selected_variable \<in> {V_Monthly_Usage_kWh, V_Cost_Savings_USD, V_Household_Size}
      then Inr (map (\<lambda>(c, g). (c, to_cell (mean (map (numeric_column selected_variable) g)))) groups)
      else agg (\<lambda>g. map_sum id Str (mode0 (map (categorical_column selected_variable) g))) groups)"

section \<open>The specification's words, as definitions\<close>

text \<open>
  The cumulative table as the specification describes it: the rows counted per distinct
  adoption year, the years ascending, the counts summed up along that order.
\<close>

definition cumulative_by_spec :: "int option list \<Rightarrow> adoption_row list" where
  "cumulative_by_spec col =
     (let years = sorted_list_of_set {y. Some y \<in> set col};
          counts = map (\<lambda>y. int (count_list col (Some y))) years
      in map (\<lambda>i. \<lparr>AYear = years ! i, Count = counts ! i,
                    Cumulative_Count = sum_list (take (Suc i) counts)\<rparr>) [0..<length years])"

text \<open>The snapshot for \<open>Y\<close>: the rows with \<^verbatim>\<open>Year\<close> at most \<open>Y\<close>, each tagged with \<open>Y\<close>.\<close>

definition snapshot :: "adoption_row list \<Rightarrow> int \<Rightarrow> expanded_row list" where
  "snapshot table Y =
     map (\<lambda>r. \<lparr>AYear = AYear r, Count = Count r, Cumulative_Count = Cumulative_Count r,
                 Animation_Year = Y\<rparr>)
       (filter (\<lambda>r. AYear r \<le> Y) table)"

text \<open>A statistical mode of a column: a value present that no value present outnumbers.\<close>

definition is_mode :: "'a option list \<Rightarrow> 'a \<Rightarrow> bool" where
  "is_mode col m \<longleftrightarrow>
     m \<in> set (dropna col) \<and>
     (\<forall>v \<in> set (dropna col). count_list col (Some v) \<le> count_list col (Some m))"

text \<open>The arithmetic mean of the values present in a column, missing when there is none.\<close>

definition arithmetic_mean :: "real option list \<Rightarrow> real option" where
  "arithmetic_mean col =
     (if dropna col = [] then None
      else Some (sum_list (dropna col) / real (length (dropna col))))"

text \<open>A row of year \<open>y\<close> with every other cell missing, from which the examples are built.\<close>

definition blank_row :: "int \<Rightarrow> household" where
  "blank_row y = \<lparr>Year = y, Country = None, Energy_Source = None, Monthly_Usage_kWh = None,
     Cost_Savings_USD = None, Income_Level = None, Household_Size = None,
     Urban_Rural = None, Adoption_Year = None\<rparr>"

text \<open>Example tables.\<close>

definition usage_example :: "household list" where
  "usage_example =
     [(blank_row 2016)\<lparr>Energy_Source := Some ''Wind'', Monthly_Usage_kWh := Some 50\<rparr>,
      (blank_row 2015)\<lparr>Energy_Source := Some ''Solar'', Monthly_Usage_kWh := Some 100\<rparr>,
      (blank_row 2015)\<lparr>Energy_Source := Some ''Solar''\<rparr>,
      (blank_row 2015)\<lparr>Energy_Source := Some ''Solar'', Monthly_Usage_kWh := Some 200\<rparr>,
      (blank_row 2015)\<lparr>Monthly_Usage_kWh := Some 7\<rparr>]"

definition map_example :: "household list" where
  "map_example =
     [(blank_row 2015)\<lparr>Country := Some ''Brazil'', Monthly_Usage_kWh := Some 100,
         Urban_Rural := Some ''Rural''\<rparr>,
      (blank_row 2015)\<lparr>Country := Some ''India'', Monthly_Usage_kWh := Some 80,
         Urban_Rural := Some ''Urban''\<rparr>,
      (blank_row 2015)\<lparr>Country := Some ''Brazil'', Monthly_Usage_kWh := Some 200,
         Urban_Rural := Some ''Urban''\<rparr>,
      (blank_row 2015)\<lparr>Country := Some ''India'', Urban_Rural := Some ''Urban''\<rparr>,
      (blank_row 2014)\<lparr>Country := Some ''Chile'', Monthly_Usage_kWh := Some 5,
         Urban_Rural := Some ''Rural''\<rparr>,
      (blank_row 2015)\<lparr>Country := Some ''Brazil'', Monthly_Usage_kWh := Some 300\<rparr>,
      (blank_row 2015)\<lparr>Country := Some ''India'', Urban_Rural := Some ''Rural''\<rparr>]"

definition savings_example :: "household list" where
  "savings_example =
     [(blank_row 2015)\<lparr>Income_Level := Some ''High'', Cost_Savings_USD := Some 30\<rparr>,
      (blank_row 2015)\<lparr>Income_Level := Some ''Low''\<rparr>,
      (blank_row 2015)\<lparr>Cost_Savings_USD := Some 12\<rparr>,
      (blank_row 2016)\<lparr>Income_Level := Some ''High'', Energy_Source := Some ''Wind''\<rparr>,
      (blank_row 2015)\<lparr>Income_Level := Some ''High'', Cost_Savings_USD := Some 50\<rparr>]"

definition numeric_example :: "household list" where
  "numeric_example =
     [(blank_row 2015)\<lparr>Country := Some ''Brazil'', Monthly_Usage_kWh := Some 100,
         Cost_Savings_USD := Some 10, Household_Size := Some 3\<rparr>,
      (blank_row 2015)\<lparr>Country := Some ''Brazil'', Monthly_Usage_kWh := Some 200,
         Household_Size := Some 4\<rparr>,
      (blank_row 2014)\<lparr>Country := Some ''Chile'', Monthly_Usage_kWh := Some 5,
         Cost_Savings_USD := Some 1, Household_Size := Some 2\<rparr>,
      (blank_row 2015)\<lparr>Country := Some ''India''\<rparr>,
      (blank_row 2015)\<lparr>Country := Some ''Brazil'', Monthly_Usage_kWh := Some 300,
         Cost_Savings_USD := Some 20\<rparr>]"

definition missing_example :: "household list" where
  "missing_example =
     [(blank_row 2015)\<lparr>Country := Some ''India'', Income_Level := Some ''Low'',
         Urban_Rural := Some ''Urban''\<rparr>,
      (blank_row 2015)\<lparr>Country := Some ''Peru'', Monthly_Usage_kWh := Some 40\<rparr>,
      (blank_row 2015)\<lparr>Country := Some ''India'', Income_Level := Some ''Low'',
         Urban_Rural := Some ''Rural''\<rparr>,
      (blank_row 2015)\<lparr>Country := Some ''India'', Urban_Rural := Some ''Urban''\<rparr>]"

section \<open>Lists, missing values and sorting\<close>

lemma set_unique [simp]: "set (unique xs) = set xs"
  by (induction xs rule: unique.induct) auto

lemma distinct_unique [simp]: "distinct (unique xs)"
  by (induction xs rule: unique.induct) auto

lemma sort_unique: "sort (unique xs) = sorted_list_of_set (set xs)"
proof -
  have "sorted_list_of_set (set (unique xs)) = sort (remdups (unique xs))"
    by (rule sorted_list_of_set_sort_remdups)
  then show ?thesis by (simp add: distinct_remdups_id)
qed

lemma dropna_Nil [simp]: "dropna [] = []"
  by (simp add: dropna_def List.map_filter_def)

lemma dropna_Cons [simp]:
  "dropna (v # col) = (case v of None \<Rightarrow> dropna col | Some x \<Rightarrow> x # dropna col)"
  by (simp add: dropna_def List.map_filter_def split: option.splits)

lemma set_dropna [simp]: "set (dropna col) = {v. Some v \<in> set col}"
  by (induction col) (auto split: option.splits)

lemma count_list_dropna: "count_list (dropna col) v = count_list col (Some v)"
  by (induction col) (auto split: option.splits)

lemma filter_key_distinct:
  "distinct (map f xs) \<Longrightarrow> k \<in> set xs \<Longrightarrow> filter (\<lambda>x. f k = f x) xs = [k]"
proof (induction xs)
  case Nil
  then show ?case by simp
next
  case (Cons a xs)
  show ?case
  proof (cases "k = a")
    case True
    have "filter (\<lambda>x. f a = f x) xs = []"
      using Cons.prems(1) by (auto simp: filter_empty_conv)
    with True show ?thesis by simp
  next
    case False
    with Cons.prems have kin: "k \<in> set xs" and "f a \<noteq> f k" by auto
    with Cons.IH Cons.prems(1) show ?thesis by auto
  qed
qed

text \<open>Where the keys are distinct, the order of the input does not reach the sorted output.\<close>

lemma sort_key_distinct_keys:
  assumes "distinct (map f xs)" and "mset ys = mset xs"
  shows "sort_key f ys = sort_key f xs"
proof (rule properties_for_sort_key)
  show "mset (sort_key f xs) = mset ys" using assms(2) by simp
  show "sorted (map f (sort_key f xs))" by simp
  fix k assume "k \<in> set (sort_key f xs)"
  then have kx: "k \<in> set xs" by simp
  then have ky: "k \<in> set ys" using assms(2) by (metis set_mset_mset)
  have "mset (map f ys) = mset (map f xs)" using assms(2) by simp
  then have dy: "distinct (map f ys)"
    using assms(1) mset_eq_imp_distinct_iff by blast
  have "mset (map f (sort_key f xs)) = mset (map f xs)" by simp
  then have ds: "distinct (map f (sort_key f xs))"
    using assms(1) mset_eq_imp_distinct_iff by blast
  show "filter (\<lambda>x. f k = f x) (sort_key f xs) = filter (\<lambda>x. f k = f x) ys"
    using filter_key_distinct [OF dy ky] filter_key_distinct [OF ds] kx by simp
qed

lemma sort_filter_eq: "sort (filter ((=) c) xs) = filter ((=) c) xs"
proof -
  have "sorted (filter ((=) c) xs)"
    by (induction xs) auto
  then show ?thesis by (simp add: sort_key_id_if_sorted)
qed

lemma sort_key_fst_graph:
  "sort_key fst (map (\<lambda>v. (v, h v)) xs) = map (\<lambda>v. (v, h v)) (sort xs)"
proof (rule properties_for_sort_key)
  show "mset (map (\<lambda>v. (v, h v)) (sort xs)) = mset (map (\<lambda>v. (v, h v)) xs)"
    by simp
  show "sorted (map fst (map (\<lambda>v. (v, h v)) (sort xs)))"
    by (simp add: comp_def)
  fix k assume "k \<in> set (map (\<lambda>v. (v, h v)) (sort xs))"
  show "filter (\<lambda>x. fst k = fst x) (map (\<lambda>v. (v, h v)) (sort xs)) =
        filter (\<lambda>x. fst k = fst x) (map (\<lambda>v. (v, h v)) xs)"
    by (simp add: filter_map comp_def filter_sort sort_filter_eq)
qed

section \<open>Cumulative adoption\<close>

lemma counts_by_year:
  "sort_key fst (value_counts col) =
     map (\<lambda>v. (v, int (count_list col (Some v)))) (sorted_list_of_set (set (dropna col)))"
proof -
  let ?vs = "dropna col"
  let ?pairs = "map (\<lambda>v. (v, int (count_list ?vs v))) (unique ?vs)"
  have "distinct (map fst ?pairs)" by (simp add: comp_def)
  moreover have "mset (value_counts col) = mset ?pairs"
    by (simp add: value_counts_def Let_def)
  ultimately have "sort_key fst (value_counts col) = sort_key fst ?pairs"
    by (rule sort_key_distinct_keys)
  also have "\<dots> = map (\<lambda>v. (v, int (count_list ?vs v))) (sort (unique ?vs))"
    by (rule sort_key_fst_graph)
  finally show ?thesis by (simp add: sort_unique count_list_dropna)
qed

lemma length_cumsum_from [simp]: "length (cumsum_from acc xs) = length xs"
  by (induction xs arbitrary: acc) auto

lemma nth_cumsum_from:
  "i < length xs \<Longrightarrow> cumsum_from acc xs ! i = acc + sum_list (take (Suc i) xs)"
proof (induction xs arbitrary: acc i)
  case Nil
  then show ?case by simp
next
  case (Cons x xs)
  then show ?case by (cases i) (auto simp: add.assoc)
qed

lemma cumsum_prefix_sums: "cumsum xs = map (\<lambda>i. sum_list (take (Suc i) xs)) [0..<length xs]"
  by (rule nth_equalityI) (simp_all add: cumsum_def nth_cumsum_from)

lemma adoption_years_rows:
  "adoption_years col =
     (let years = sorted_list_of_set (set (dropna col));
          counts = map (\<lambda>y. int (count_list col (Some y))) years
      in map (\<lambda>i. \<lparr>AYear = years ! i, Count = counts ! i,
                    Cumulative_Count = sum_list (take (Suc i) counts)\<rparr>) [0..<length years])"
proof -
  let ?ys = "sorted_list_of_set (set (dropna col))"
  let ?cs = "map (\<lambda>y. int (count_list col (Some y))) ?ys"
  have snd: "map snd (map (\<lambda>v. (v, int (count_list col (Some v)))) ?ys) = ?cs"
    by (simp add: comp_def)
  show ?thesis
    unfolding adoption_years_def counts_by_year Let_def snd
    by (rule nth_equalityI) (simp_all add: cumsum_prefix_sums)
qed


text \<open>
  Claim C2. The table that lines 94 to 99 build from the \<^verbatim>\<open>Adoption_Year\<close> column is
  the one the specification describes: one row per distinct adoption year that is
  present, the years ascending, with the number of rows of that year and the running sum
  of these numbers. For the column 2010, 2010, 2012 it is (2010, 2, 2), (2012, 1, 3).
\<close>

theorem adoption_years_cumulative:
  "adoption_years col = cumulative_by_spec col \<and>
   adoption_years [Some 2010, Some 2010, Some 2012] =
     [\<lparr>AYear = 2010, Count = 2, Cumulative_Count = 2\<rparr>,
      \<lparr>AYear = 2012, Count = 1, Cumulative_Count = 3\<rparr>]"
proof
  show "adoption_years col = cumulative_by_spec col"
    by (simp add: adoption_years_rows cumulative_by_spec_def)
  show "adoption_years [Some 2010, Some 2010, Some 2012] =
     [\<lparr>AYear = 2010, Count = 2, Cumulative_Count = 2\<rparr>,
      \<lparr>AYear = 2012, Count = 1, Cumulative_Count = 3\<rparr>]"
    by (simp add: adoption_years_def value_counts_def cumsum_def)
qed

section \<open>Expansion for the animation\<close>

lemma temp_data_snapshot: "temp_data table year = snapshot table year"
  by (simp add: temp_data_def snapshot_def adoption_row.extend_def expanded_row.fields_def
      adoption_row.defs expanded_row.defs)

lemma Animation_Year_snapshot: "e \<in> set (snapshot table Y) \<Longrightarrow> Animation_Year e = Y"
  by (auto simp: snapshot_def)

lemma filter_frame_other:
  "Y \<notin> set ys \<Longrightarrow> filter (\<lambda>e. Animation_Year e = Y) (concat (map (snapshot table) ys)) = []"
  by (induction ys) (auto simp: filter_empty_conv dest: Animation_Year_snapshot)

lemma filter_frame:
  "distinct ys \<Longrightarrow> Y \<in> set ys \<Longrightarrow>
   filter (\<lambda>e. Animation_Year e = Y) (concat (map (snapshot table) ys)) = snapshot table Y"
proof (induction ys)
  case Nil
  then show ?case by simp
next
  case (Cons y ys)
  show ?case
  proof (cases "Y = y")
    case True
    then have "Y \<notin> set ys" using Cons.prems(1) by simp
    then have rest: "filter (\<lambda>e. Animation_Year e = Y) (concat (map (snapshot table) ys)) = []"
      by (rule filter_frame_other)
    have "filter (\<lambda>e. Animation_Year e = Y) (snapshot table Y) = snapshot table Y"
      by (simp add: filter_id_conv Animation_Year_snapshot)
    with rest True show ?thesis by simp
  next
    case False
    then have "filter (\<lambda>e. Animation_Year e = Y) (snapshot table y) = []"
      by (auto simp: filter_empty_conv dest: Animation_Year_snapshot)
    moreover have "filter (\<lambda>e. Animation_Year e = Y) (concat (map (snapshot table) ys)) = snapshot table Y"
      using Cons False by simp
    ultimately show ?thesis by simp
  qed
qed

lemma expanded_adoption_data_concat:
  "table \<noteq> [] \<Longrightarrow>
   expanded_adoption_data table =
     Inr (concat (map (snapshot table) (sorted_list_of_set (AYear ` set table))))"
proof -
  assume "table \<noteq> []"
  then have "sorted_list_of_set (AYear ` set table) \<noteq> []"
    by (simp add: sorted_list_of_set.sorted_key_list_of_set_eq_Nil_iff)
  then show ?thesis
    by (simp add: expanded_adoption_data_def pd_concat_def sort_unique temp_data_snapshot
        cong: map_cong)
qed

lemma snapshot_all:
  "\<forall>r \<in> set table. AYear r \<le> Y \<Longrightarrow>
   snapshot table Y = map (\<lambda>r. \<lparr>AYear = AYear r, Count = Count r,
       Cumulative_Count = Cumulative_Count r, Animation_Year = Y\<rparr>) table"
  by (simp add: snapshot_def filter_id_conv)

lemma astype_int_id: "- (2 ^ 63) \<le> y \<Longrightarrow> y < 2 ^ 63 \<Longrightarrow> astype_int y = y"
  by (simp add: astype_int_def)

lemma AYear_snapshot: "e \<in> set (snapshot table Y) \<Longrightarrow> AYear e \<in> AYear ` set table"
  by (auto simp: snapshot_def)

lemma expanded_adoption_data_int_concat:
  assumes "table \<noteq> []" and "AYear ` set table \<subseteq> {- (2 ^ 63) ..< 2 ^ 63}"
  shows "expanded_adoption_data_int table =
     Inr (concat (map (snapshot table) (sorted_list_of_set (AYear ` set table))))"
proof -
  let ?ys = "sorted_list_of_set (AYear ` set table)"
  let ?frame = "concat (map (snapshot table) ?ys)"
  have c: "expanded_adoption_data table = Inr ?frame"
    using assms(1) by (rule expanded_adoption_data_concat)
  have "\<forall>e \<in> set ?frame. e\<lparr>AYear := astype_int (AYear e),
            Animation_Year := astype_int (Animation_Year e)\<rparr> = e"
  proof
    fix e assume e: "e \<in> set ?frame"
    then obtain Y where Y: "Y \<in> AYear ` set table" "e \<in> set (snapshot table Y)"
      by auto
    have "AYear e \<in> AYear ` set table" using Y(2) by (rule AYear_snapshot)
    then have 1: "astype_int (AYear e) = AYear e"
      using assms(2) by (intro astype_int_id) auto
    have "Animation_Year e = Y" using Y(2) by (rule Animation_Year_snapshot)
    then have 2: "astype_int (Animation_Year e) = Animation_Year e"
      using assms(2) Y(1) by (intro astype_int_id) auto
    show "e\<lparr>AYear := astype_int (AYear e),
            Animation_Year := astype_int (Animation_Year e)\<rparr> = e"
      by (simp add: 1 2)
  qed
  then have "map (\<lambda>r. r\<lparr>AYear := astype_int (AYear r),
            Animation_Year := astype_int (Animation_Year r)\<rparr>) ?frame = ?frame"
    by (intro map_idI) blast
  then show ?thesis
    by (simp add: expanded_adoption_data_int_def c)
qed

text \<open>
  Claim C1, as the code has it. For every cumulative adoption table that has at least
  one row and whose \<^verbatim>\<open>Year\<close> values lie in the \<^verbatim>\<open>int64\<close> range, lines 102 to 112 return
  a table: the snapshots of the distinct \<^verbatim>\<open>Year\<close> values \<open>Y\<close>, one after the other in
  ascending order of \<open>Y\<close>, unchanged by the conversions of lines 111 and 112. The rows
  of the output with \<^verbatim>\<open>Animation_Year = Y\<close> are exactly the rows of the table with
  \<^verbatim>\<open>Year\<close> at most \<open>Y\<close>, in table order, each tagged with \<open>Y\<close>; no other
  \<^verbatim>\<open>Animation_Year\<close> occurs; and a table with one distinct \<^verbatim>\<open>Year\<close> gives a single
  frame, the whole table tagged with that year.
\<close>

theorem expansion_snapshots:
  assumes "table \<noteq> []" and "AYear ` set table \<subseteq> {- (2 ^ 63) ..< 2 ^ 63}"
  shows "\<exists>out. expanded_adoption_data_int table = Inr out
     \<and> out = concat (map (snapshot table) (sorted_list_of_set (AYear ` set table)))
     \<and> (\<forall>Y \<in> AYear ` set table. filter (\<lambda>e. Animation_Year e = Y) out = snapshot table Y)
     \<and> (\<forall>e \<in> set out. Animation_Year e \<in> AYear ` set table)
     \<and> (\<forall>Y. AYear ` set table = {Y} \<longrightarrow>
           out = map (\<lambda>r. \<lparr>AYear = AYear r, Count = Count r,
                   Cumulative_Count = Cumulative_Count r, Animation_Year = Y\<rparr>) table)"
proof -
  let ?ys = "sorted_list_of_set (AYear ` set table)"
  let ?out = "concat (map (snapshot table) ?ys)"
  have ys: "distinct ?ys" "set ?ys = AYear ` set table" by simp_all
  have 1: "expanded_adoption_data_int table = Inr ?out"
    using assms by (rule expanded_adoption_data_int_concat)
  have 2: "\<forall>Y \<in> AYear ` set table. filter (\<lambda>e. Animation_Year e = Y) ?out = snapshot table Y"
    using filter_frame [OF ys(1)] ys(2) by blast
  have 3: "\<forall>e \<in> set ?out. Animation_Year e \<in> AYear ` set table"
    using ys(2) by (auto dest: Animation_Year_snapshot)
  have 4: "\<forall>Y. AYear ` set table = {Y} \<longrightarrow>
           ?out = map (\<lambda>r. \<lparr>AYear = AYear r, Count = Count r,
                   Cumulative_Count = Cumulative_Count r, Animation_Year = Y\<rparr>) table"
  proof (intro allI impI)
    fix Y assume one: "AYear ` set table = {Y}"
    then have "?ys = [Y]" by simp
    moreover have "\<forall>r \<in> set table. AYear r \<le> Y" using one by auto
    ultimately show "?out = map (\<lambda>r. \<lparr>AYear = AYear r, Count = Count r,
                   Cumulative_Count = Cumulative_Count r, Animation_Year = Y\<rparr>) table"
      by (simp add: snapshot_all)
  qed
  from 1 2 3 4 show ?thesis by blast
qed

text \<open>
  The table of the specification's example: the frame of 2010 holds the row of 2010, the
  frame of 2012 both rows.
\<close>

theorem expansion_snapshots_witness:
  "[\<lparr>AYear = 2010, Count = 2, Cumulative_Count = 2\<rparr>,
    \<lparr>AYear = 2012, Count = 1, Cumulative_Count = 3\<rparr>] \<noteq> [] \<and>
   AYear ` set [\<lparr>AYear = 2010, Count = 2, Cumulative_Count = 2\<rparr>,
    \<lparr>AYear = 2012, Count = 1, Cumulative_Count = 3\<rparr>] \<subseteq> {- (2 ^ 63) ..< 2 ^ 63} \<and>
   (\<exists>out. expanded_adoption_data_int
        [\<lparr>AYear = 2010, Count = 2, Cumulative_Count = 2\<rparr>,
         \<lparr>AYear = 2012, Count = 1, Cumulative_Count = 3\<rparr>] = Inr out \<and>
      out =
        [\<lparr>AYear = 2010, Count = 2, Cumulative_Count = 2, Animation_Year = 2010\<rparr>,
         \<lparr>AYear = 2010, Count = 2, Cumulative_Count = 2, Animation_Year = 2012\<rparr>,
         \<lparr>AYear = 2012, Count = 1, Cumulative_Count = 3, Animation_Year = 2012\<rparr>] \<and>
      filter (\<lambda>e. Animation_Year e = 2010) out =
        [\<lparr>AYear = 2010, Count = 2, Cumulative_Count = 2, Animation_Year = 2010\<rparr>] \<and>
      filter (\<lambda>e. Animation_Year e = 2012) out =
        [\<lparr>AYear = 2010, Count = 2, Cumulative_Count = 2, Animation_Year = 2012\<rparr>,
         \<lparr>AYear = 2012, Count = 1, Cumulative_Count = 3, Animation_Year = 2012\<rparr>])"
proof -
  let ?t = "[\<lparr>AYear = 2010, Count = 2, Cumulative_Count = 2\<rparr>,
    \<lparr>AYear = 2012, Count = 1, Cumulative_Count = 3\<rparr>]"
  have ne: "?t \<noteq> []" by simp
  have rg: "AYear ` set ?t \<subseteq> {- (2 ^ 63) ..< 2 ^ 63}" by simp
  from expansion_snapshots [OF ne rg] ne rg show ?thesis
    by (simp add: snapshot_def)
qed

text \<open>
  Claim C1 as stated, for every table, fails at two inputs. At the table without rows
  there is no year, the loop of line 105 appends nothing, and \<^verbatim>\<open>pd.concat\<close> of line 110
  raises instead of returning the empty concatenation. At a table whose year is
  \<open>2 ^ 63\<close>, which an unsigned 64-bit column holds, the conversion of lines 111 and 112
  wraps: the row with \<^verbatim>\<open>Year\<close> \<open>2 ^ 63\<close> comes out with \<^verbatim>\<open>Year\<close> and
  \<^verbatim>\<open>Animation_Year\<close> \<open>- 2 ^ 63\<close>.
\<close>

theorem expansion_raises_or_wraps:
  "expanded_adoption_data_int [] = Inl ValueError \<and>
   expanded_adoption_data_int
     [\<lparr>AYear = 9223372036854775808, Count = 1, Cumulative_Count = 1\<rparr>] =
     Inr [\<lparr>AYear = - 9223372036854775808, Count = 1, Cumulative_Count = 1,
           Animation_Year = - 9223372036854775808\<rparr>]"
  by (simp add: expanded_adoption_data_int_def expanded_adoption_data_def pd_concat_def
      temp_data_def adoption_row.defs expanded_row.defs astype_int_def)

subsection \<open>The number of rows of the expanded table\<close>









section \<open>Group-by aggregations\<close>

lemma groupby_keys:
  "map fst (groupby key rows) = sorted_list_of_set {k. \<exists>r \<in> set rows. key r = Some k}"
proof -
  have "{v. Some v \<in> key ` set rows} = {k. \<exists>r \<in> set rows. key r = Some k}"
    by (auto simp: image_iff intro: sym)
  then show ?thesis
    by (simp add: groupby_def comp_def sort_unique)
qed

lemma finite_keys: "finite {k. \<exists>r \<in> set rows. key r = Some k}"
proof -
  have "{k. \<exists>r \<in> set rows. key r = Some k} = set (dropna (map key rows))"
    by (auto simp: image_iff intro: sym)
  then show ?thesis by (metis List.finite_set)
qed

lemma groupby_rows:
  "(k, g) \<in> set (groupby key rows) \<longleftrightarrow>
     (\<exists>r \<in> set rows. key r = Some k) \<and> g = filter (\<lambda>r. key r = Some k) rows"
  by (auto simp: groupby_def image_iff intro: sym)

lemma groupby_map_rows:
  "(k, m) \<in> set (map (\<lambda>(k, g). (k, f g)) (groupby key rows)) \<longleftrightarrow>
     (\<exists>r \<in> set rows. key r = Some k) \<and> m = f (filter (\<lambda>r. key r = Some k) rows)"
proof -
  have "(k, m) \<in> set (map (\<lambda>(k, g). (k, f g)) (groupby key rows)) \<longleftrightarrow>
        (\<exists>g. (k, g) \<in> set (groupby key rows) \<and> m = f g)"
    by (force simp: image_iff case_prod_unfold)
  then show ?thesis
    by (simp only: groupby_rows) blast
qed

lemma mean_arithmetic_mean: "mean col = arithmetic_mean col"
  by (simp add: mean_def arithmetic_mean_def Let_def)

lemma usage_key:
  "map_option (\<lambda>e. (Year r, e)) (Energy_Source r) = Some (y, e) \<longleftrightarrow>
     Year r = y \<and> Energy_Source r = Some e"
  by (cases "Energy_Source r") auto

lemma savings_key:
  "map_option (\<lambda>l. (Year r, l)) (Income_Level r) = Some (y, l) \<longleftrightarrow>
     Year r = y \<and> Income_Level r = Some l"
  by (cases "Income_Level r") auto

lemma avg_usage_keys:
  "map fst (avg_usage data) =
     sorted_list_of_set {(y, e). \<exists>r \<in> set data. Year r = y \<and> Energy_Source r = Some e}"
proof -
  have "map fst (avg_usage data) =
        map fst (groupby (\<lambda>r. map_option (\<lambda>e. (Year r, e)) (Energy_Source r)) data)"
    by (simp add: avg_usage_def comp_def case_prod_unfold)
  also have "\<dots> = sorted_list_of_set
      {k. \<exists>r \<in> set data. map_option (\<lambda>e. (Year r, e)) (Energy_Source r) = Some k}"
    by (rule groupby_keys)
  also have "{k. \<exists>r \<in> set data. map_option (\<lambda>e. (Year r, e)) (Energy_Source r) = Some k} =
        {(y, e). \<exists>r \<in> set data. Year r = y \<and> Energy_Source r = Some e}"
    by (auto simp: usage_key)
  finally show ?thesis .
qed

lemma avg_usage_rows:
  "((y, e), m) \<in> set (avg_usage data) \<longleftrightarrow>
     (\<exists>r \<in> set data. Year r = y \<and> Energy_Source r = Some e) \<and>
     m = arithmetic_mean (map Monthly_Usage_kWh
           (filter (\<lambda>r. Year r = y \<and> Energy_Source r = Some e) data))"
  by (simp only: avg_usage_def groupby_map_rows usage_key mean_arithmetic_mean)

lemma avg_savings_rows:
  "((y, l), m) \<in> set (avg_savings data) \<longleftrightarrow>
     (\<exists>r \<in> set data. Year r = y \<and> Income_Level r = Some l) \<and>
     m = arithmetic_mean (map Cost_Savings_USD
           (filter (\<lambda>r. Year r = y \<and> Income_Level r = Some l) data))"
  by (simp only: avg_savings_def groupby_map_rows savings_key mean_arithmetic_mean)

text \<open>
  Claim C6. The usage aggregation of line 38 has exactly one output row per pair
  (\<^verbatim>\<open>Year\<close>, \<^verbatim>\<open>Energy_Source\<close>) that occurs in a row of the input, in ascending order of
  the pairs, and no row for any other pair. The value of the row of a pair is the
  arithmetic mean of the \<^verbatim>\<open>Monthly_Usage_kWh\<close> values present in the rows of that pair,
  the missing values left out (and it is missing when none is present).
\<close>

theorem avg_usage_group_means:
  "map fst (avg_usage data) =
     sorted_list_of_set {(y, e). \<exists>r \<in> set data. Year r = y \<and> Energy_Source r = Some e}
   \<and> distinct (map fst (avg_usage data))
   \<and> (\<forall>y e. (y, e) \<in> fst ` set (avg_usage data) \<longleftrightarrow>
              (\<exists>r \<in> set data. Year r = y \<and> Energy_Source r = Some e))
   \<and> (\<forall>y e m. ((y, e), m) \<in> set (avg_usage data) \<longrightarrow>
        m = arithmetic_mean (map Monthly_Usage_kWh
              (filter (\<lambda>r. Year r = y \<and> Energy_Source r = Some e) data)))"
proof -
  have 1: "map fst (avg_usage data) =
     sorted_list_of_set {(y, e). \<exists>r \<in> set data. Year r = y \<and> Energy_Source r = Some e}"
    by (rule avg_usage_keys)
  have 2: "distinct (map fst (avg_usage data))"
    by (simp only: 1 sorted_list_of_set.distinct_sorted_key_list_of_set)
  have 3: "\<forall>y e. (y, e) \<in> fst ` set (avg_usage data) \<longleftrightarrow>
              (\<exists>r \<in> set data. Year r = y \<and> Energy_Source r = Some e)"
  proof (intro allI iffI)
    fix y e assume "(y, e) \<in> fst ` set (avg_usage data)"
    then obtain m where "((y, e), m) \<in> set (avg_usage data)" by auto
    then show "\<exists>r \<in> set data. Year r = y \<and> Energy_Source r = Some e"
      by (simp only: avg_usage_rows)
  next
    fix y e assume "\<exists>r \<in> set data. Year r = y \<and> Energy_Source r = Some e"
    then have "((y, e), arithmetic_mean (map Monthly_Usage_kWh
          (filter (\<lambda>r. Year r = y \<and> Energy_Source r = Some e) data))) \<in> set (avg_usage data)"
      by (simp only: avg_usage_rows)
    then show "(y, e) \<in> fst ` set (avg_usage data)" by force
  qed
  have 4: "\<forall>y e m. ((y, e), m) \<in> set (avg_usage data) \<longrightarrow>
        m = arithmetic_mean (map Monthly_Usage_kWh
              (filter (\<lambda>r. Year r = y \<and> Energy_Source r = Some e) data))"
    by (simp add: avg_usage_rows)
  from 1 2 3 4 show ?thesis by blast
qed

text \<open>
  An input with a missing value in the group (2015, Solar), a row without energy source,
  and no row for (2016, Solar).
\<close>

theorem avg_usage_group_means_witness:
  "map fst (avg_usage usage_example) = [(2015, ''Solar''), (2016, ''Wind'')]
   \<and> (\<exists>r \<in> set usage_example. Year r = 2015 \<and> Energy_Source r = Some ''Solar'')
   \<and> ((2015, ''Solar''), Some 150) \<in> set (avg_usage usage_example)
   \<and> arithmetic_mean (map Monthly_Usage_kWh
        (filter (\<lambda>r. Year r = 2015 \<and> Energy_Source r = Some ''Solar'') usage_example)) = Some 150
   \<and> \<not> (\<exists>r \<in> set usage_example. Year r = 2016 \<and> Energy_Source r = Some ''Solar'')
   \<and> (2016, ''Solar'') \<notin> fst ` set (avg_usage usage_example)"
proof -
  have ev: "avg_usage usage_example = [((2015, ''Solar''), Some 150), ((2016, ''Wind''), Some 50)]"
    by (simp add: avg_usage_def groupby_def mean_def usage_example_def blank_row_def)
  have ex: "\<exists>r \<in> set usage_example. Year r = 2015 \<and> Energy_Source r = Some ''Solar''"
    by (simp add: usage_example_def blank_row_def)
  have nex: "\<not> (\<exists>r \<in> set usage_example. Year r = 2016 \<and> Energy_Source r = Some ''Solar'')"
    by (simp add: usage_example_def blank_row_def)
  have mem: "((2015, ''Solar''), Some 150) \<in> set (avg_usage usage_example)"
    by (simp add: ev)
  from avg_usage_group_means [of usage_example] ex nex mem show ?thesis
    by (simp add: ev)
qed

subsection \<open>Map with filter\<close>

lemma filter_country_year:
  "filter (\<lambda>r. Country r = Some c) (filtered_data data y) =
   filter (\<lambda>r. Year r = y \<and> Country r = Some c) data"
  by (simp add: filtered_data_def)

lemma country_in_year:
  "(\<exists>r \<in> set (filtered_data data y). Country r = Some c) \<longleftrightarrow>
   (\<exists>r \<in> set data. Year r = y \<and> Country r = Some c)"
  by (auto simp: filtered_data_def)

lemma country_groups_keys:
  "map fst (groupby Country (filtered_data data y)) =
     sorted_list_of_set {c. \<exists>r \<in> set data. Year r = y \<and> Country r = Some c}"
  by (simp only: groupby_keys country_in_year)

lemma country_avg_numeric:
  assumes "v \<in> {V_Monthly_Usage_kWh, V_Cost_Savings_USD, V_Household_Size}"
  shows "country_avg data y v =
     Inr (map (\<lambda>(c, g). (c, to_cell (mean (map (numeric_column v) g))))
            (groupby Country (filtered_data data y)))"
  using assms by (simp add: country_avg_def Let_def)

lemma country_avg_categorical:
  assumes "v \<in> {V_Income_Level, V_Urban_Rural}"
  shows "country_avg data y v =
     agg (\<lambda>g. map_sum id Str (mode0 (map (categorical_column v) g)))
       (groupby Country (filtered_data data y))"
  using assms by (auto simp: country_avg_def Let_def)

lemma numeric_rows:
  "(c, x) \<in> set (map (\<lambda>(c, g). (c, to_cell (mean (map (numeric_column v) g))))
            (groupby Country (filtered_data data y))) \<longleftrightarrow>
   (\<exists>r \<in> set data. Year r = y \<and> Country r = Some c) \<and>
   x = to_cell (arithmetic_mean (map (numeric_column v)
         (filter (\<lambda>r. Year r = y \<and> Country r = Some c) data)))"
proof -
  have "(c, x) \<in> set (map (\<lambda>(c, g). (c, to_cell (mean (map (numeric_column v) g))))
            (groupby Country (filtered_data data y))) \<longleftrightarrow>
    (\<exists>r \<in> set (filtered_data data y). Country r = Some c) \<and>
    x = to_cell (mean (map (numeric_column v)
          (filter (\<lambda>r. Country r = Some c) (filtered_data data y))))"
    by (rule groupby_map_rows)
  then show ?thesis
    by (simp only: country_in_year filter_country_year mean_arithmetic_mean)
qed

lemma dropna_map: "dropna (map f xs) = List.map_filter f xs"
  by (induction xs) (simp_all add: List.map_filter_simps split: option.splits)

lemma to_cell_mean:
  "to_cell (arithmetic_mean (map f g)) =
     (let vs = List.map_filter f g in
      if vs = [] then NaN else Num (sum_list vs / real (length vs)))"
  by (simp add: to_cell_def arithmetic_mean_def dropna_map Let_def del: set_dropna)

lemma numeric_column_fields:
  "numeric_column V_Monthly_Usage_kWh = Monthly_Usage_kWh"
  "numeric_column V_Cost_Savings_USD = Cost_Savings_USD"
  "numeric_column V_Household_Size = (\<lambda>r. map_option real_of_int (Household_Size r))"
  by (simp_all add: fun_eq_iff numeric_column_def)

lemma numeric_view:
  assumes "v \<in> {V_Monthly_Usage_kWh, V_Cost_Savings_USD, V_Household_Size}"
  shows "\<exists>out. country_avg data y v = Inr out
       \<and> map fst out = sorted_list_of_set {c. \<exists>r \<in> set data. Year r = y \<and> Country r = Some c}
       \<and> (\<forall>c x. (c, x) \<in> set out \<longrightarrow>
            x = (let vs = List.map_filter (numeric_column v)
                            (filter (\<lambda>r. Year r = y \<and> Country r = Some c) data) in
                 if vs = [] then NaN else Num (sum_list vs / real (length vs))))"
proof -
  let ?out = "map (\<lambda>(c, g). (c, to_cell (mean (map (numeric_column v) g))))
            (groupby Country (filtered_data data y))"
  have 1: "country_avg data y v = Inr ?out"
    using assms by (rule country_avg_numeric)
  have "map fst ?out = map fst (groupby Country (filtered_data data y))"
    by (simp add: comp_def case_prod_unfold)
  then have 2: "map fst ?out =
      sorted_list_of_set {c. \<exists>r \<in> set data. Year r = y \<and> Country r = Some c}"
    by (simp only: country_groups_keys)
  have 3: "\<forall>c x. (c, x) \<in> set ?out \<longrightarrow>
            x = (let vs = List.map_filter (numeric_column v)
                            (filter (\<lambda>r. Year r = y \<and> Country r = Some c) data) in
                 if vs = [] then NaN else Num (sum_list vs / real (length vs)))"
    by (simp only: numeric_rows to_cell_mean) blast
  from 1 2 3 show ?thesis by blast
qed

text \<open>
  Claim C4. For each of the three numeric variables the map view never fails. Its output
  has one row per country that occurs in a row of the selected year, in ascending order
  of the countries, and the value of a country is the arithmetic mean of the values of
  that variable's own column (\<^verbatim>\<open>Monthly_Usage_kWh\<close>, \<^verbatim>\<open>Cost_Savings_USD\<close> or
  \<^verbatim>\<open>Household_Size\<close>) that are present in the rows of that year and country, NaN when
  none is present. A table whose rows of 2015 and Brazil have the usages 100, 200 and
  300 gives Brazil the value 200.
\<close>

theorem country_avg_numeric_means:
  "(\<exists>out. country_avg data y V_Monthly_Usage_kWh = Inr out
       \<and> map fst out = sorted_list_of_set {c. \<exists>r \<in> set data. Year r = y \<and> Country r = Some c}
       \<and> (\<forall>c x. (c, x) \<in> set out \<longrightarrow>
            x = (let vs = List.map_filter Monthly_Usage_kWh
                            (filter (\<lambda>r. Year r = y \<and> Country r = Some c) data) in
                 if vs = [] then NaN else Num (sum_list vs / real (length vs)))))
   \<and> (\<exists>out. country_avg data y V_Cost_Savings_USD = Inr out
       \<and> map fst out = sorted_list_of_set {c. \<exists>r \<in> set data. Year r = y \<and> Country r = Some c}
       \<and> (\<forall>c x. (c, x) \<in> set out \<longrightarrow>
            x = (let vs = List.map_filter Cost_Savings_USD
                            (filter (\<lambda>r. Year r = y \<and> Country r = Some c) data) in
                 if vs = [] then NaN else Num (sum_list vs / real (length vs)))))
   \<and> (\<exists>out. country_avg data y V_Household_Size = Inr out
       \<and> map fst out = sorted_list_of_set {c. \<exists>r \<in> set data. Year r = y \<and> Country r = Some c}
       \<and> (\<forall>c x. (c, x) \<in> set out \<longrightarrow>
            x = (let vs = List.map_filter (\<lambda>r. map_option real_of_int (Household_Size r))
                            (filter (\<lambda>r. Year r = y \<and> Country r = Some c) data) in
                 if vs = [] then NaN else Num (sum_list vs / real (length vs)))))
   \<and> (map Monthly_Usage_kWh (filter (\<lambda>r. Year r = 2015 \<and> Country r = Some ''Brazil'') table) =
        [Some 100, Some 200, Some 300] \<longrightarrow>
      (\<exists>out. country_avg table 2015 V_Monthly_Usage_kWh = Inr out \<and> (''Brazil'', Num 200) \<in> set out))"
proof (intro conjI impI)
  show "\<exists>out. country_avg data y V_Monthly_Usage_kWh = Inr out
       \<and> map fst out = sorted_list_of_set {c. \<exists>r \<in> set data. Year r = y \<and> Country r = Some c}
       \<and> (\<forall>c x. (c, x) \<in> set out \<longrightarrow>
            x = (let vs = List.map_filter Monthly_Usage_kWh
                            (filter (\<lambda>r. Year r = y \<and> Country r = Some c) data) in
                 if vs = [] then NaN else Num (sum_list vs / real (length vs))))"
    using numeric_view [of V_Monthly_Usage_kWh data y] by (simp only: numeric_column_fields) simp
  show "\<exists>out. country_avg data y V_Cost_Savings_USD = Inr out
       \<and> map fst out = sorted_list_of_set {c. \<exists>r \<in> set data. Year r = y \<and> Country r = Some c}
       \<and> (\<forall>c x. (c, x) \<in> set out \<longrightarrow>
            x = (let vs = List.map_filter Cost_Savings_USD
                            (filter (\<lambda>r. Year r = y \<and> Country r = Some c) data) in
                 if vs = [] then NaN else Num (sum_list vs / real (length vs))))"
    using numeric_view [of V_Cost_Savings_USD data y] by (simp only: numeric_column_fields) simp
  show "\<exists>out. country_avg data y V_Household_Size = Inr out
       \<and> map fst out = sorted_list_of_set {c. \<exists>r \<in> set data. Year r = y \<and> Country r = Some c}
       \<and> (\<forall>c x. (c, x) \<in> set out \<longrightarrow>
            x = (let vs = List.map_filter (\<lambda>r. map_option real_of_int (Household_Size r))
                            (filter (\<lambda>r. Year r = y \<and> Country r = Some c) data) in
                 if vs = [] then NaN else Num (sum_list vs / real (length vs))))"
    using numeric_view [of V_Household_Size data y] by (simp only: numeric_column_fields) simp
next
  let ?g = "filter (\<lambda>r. Year r = 2015 \<and> Country r = Some ''Brazil'') table"
  assume b: "map Monthly_Usage_kWh ?g = [Some 100, Some 200, Some 300]"
  obtain out where out: "country_avg table 2015 V_Monthly_Usage_kWh = Inr out"
    "map fst out = sorted_list_of_set {c. \<exists>r \<in> set table. Year r = 2015 \<and> Country r = Some c}"
    "\<forall>c x. (c, x) \<in> set out \<longrightarrow>
            x = (let vs = List.map_filter (numeric_column V_Monthly_Usage_kWh)
                            (filter (\<lambda>r. Year r = 2015 \<and> Country r = Some c) table) in
                 if vs = [] then NaN else Num (sum_list vs / real (length vs)))"
    using numeric_view [of V_Monthly_Usage_kWh table 2015] by auto
  have "?g \<noteq> []" using b by auto
  then obtain r where "r \<in> set ?g" by (cases ?g) auto
  then have "''Brazil'' \<in> {c. \<exists>r \<in> set table. Year r = 2015 \<and> Country r = Some c}" by auto
  moreover have "finite {c. \<exists>r \<in> set table. Year r = 2015 \<and> Country r = Some c}"
    using finite_keys [of "filtered_data table 2015" Country] by (simp only: country_in_year)
  ultimately have "''Brazil'' \<in> set (map fst out)"
    by (simp only: out(2) sorted_list_of_set.set_sorted_key_list_of_set)
  then obtain x where x: "(''Brazil'', x) \<in> set out" by auto
  have "List.map_filter Monthly_Usage_kWh ?g = dropna (map Monthly_Usage_kWh ?g)"
    by (simp only: dropna_map)
  then have vs: "List.map_filter Monthly_Usage_kWh ?g = [100, 200, 300]"
    by (simp add: b)
  have "x = (let vs = List.map_filter (numeric_column V_Monthly_Usage_kWh) ?g in
                 if vs = [] then NaN else Num (sum_list vs / real (length vs)))"
    using out(3) x by blast
  then have "x = Num 200"
    by (simp only: numeric_column_fields vs) simp
  with x out(1) show "\<exists>out. country_avg table 2015 V_Monthly_Usage_kWh = Inr out \<and>
      (''Brazil'', Num 200) \<in> set out"
    by blast
qed

text \<open>
  A table in which Brazil has a value missing in two of the columns and India has no
  value at all.
\<close>

lemma numeric_example_views:
  "country_avg numeric_example 2015 V_Monthly_Usage_kWh = Inr [(''Brazil'', Num 200), (''India'', NaN)]"
  "country_avg numeric_example 2015 V_Cost_Savings_USD = Inr [(''Brazil'', Num 15), (''India'', NaN)]"
  "country_avg numeric_example 2015 V_Household_Size = Inr [(''Brazil'', Num (7 / 2)), (''India'', NaN)]"
  by (simp_all add: country_avg_def filtered_data_def groupby_def mean_def to_cell_def
      numeric_column_def numeric_example_def blank_row_def)

theorem country_avg_numeric_means_witness:
  "map Monthly_Usage_kWh (filter (\<lambda>r. Year r = 2015 \<and> Country r = Some ''Brazil'') numeric_example) =
        [Some 100, Some 200, Some 300]
   \<and> country_avg numeric_example 2015 V_Monthly_Usage_kWh =
        Inr [(''Brazil'', Num 200), (''India'', NaN)]
   \<and> List.map_filter Monthly_Usage_kWh
        (filter (\<lambda>r. Year r = 2015 \<and> Country r = Some ''Brazil'') numeric_example) = [100, 200, 300]
   \<and> country_avg numeric_example 2015 V_Cost_Savings_USD =
        Inr [(''Brazil'', Num 15), (''India'', NaN)]
   \<and> List.map_filter Cost_Savings_USD
        (filter (\<lambda>r. Year r = 2015 \<and> Country r = Some ''Brazil'') numeric_example) = [10, 20]
   \<and> country_avg numeric_example 2015 V_Household_Size =
        Inr [(''Brazil'', Num (7 / 2)), (''India'', NaN)]
   \<and> List.map_filter (\<lambda>r. map_option real_of_int (Household_Size r))
        (filter (\<lambda>r. Year r = 2015 \<and> Country r = Some ''Brazil'') numeric_example) = [3, 4]
   \<and> List.map_filter Monthly_Usage_kWh
        (filter (\<lambda>r. Year r = 2015 \<and> Country r = Some ''India'') numeric_example) = []"
proof -
  have b: "map Monthly_Usage_kWh
      (filter (\<lambda>r. Year r = 2015 \<and> Country r = Some ''Brazil'') numeric_example) =
        [Some 100, Some 200, Some 300]"
    by (simp add: numeric_example_def blank_row_def)
  have l: "List.map_filter Monthly_Usage_kWh
        (filter (\<lambda>r. Year r = 2015 \<and> Country r = Some ''Brazil'') numeric_example) = [100, 200, 300]"
     "List.map_filter Cost_Savings_USD
        (filter (\<lambda>r. Year r = 2015 \<and> Country r = Some ''Brazil'') numeric_example) = [10, 20]"
     "List.map_filter (\<lambda>r. map_option real_of_int (Household_Size r))
        (filter (\<lambda>r. Year r = 2015 \<and> Country r = Some ''Brazil'') numeric_example) = [3, 4]"
     "List.map_filter Monthly_Usage_kWh
        (filter (\<lambda>r. Year r = 2015 \<and> Country r = Some ''India'') numeric_example) = []"
    by (simp_all add: List.map_filter_def numeric_example_def blank_row_def)
  from country_avg_numeric_means [of numeric_example 2015 numeric_example] b l
  show ?thesis
    by (simp add: numeric_example_views)
qed

lemma Max_count_iff:
  assumes "v \<in> set vs"
  shows "count_list vs v = Max (set (map (count_list vs) vs)) \<longleftrightarrow>
         (\<forall>w \<in> set vs. count_list vs w \<le> count_list vs v)"
proof -
  let ?S = "set (map (count_list vs) vs)"
  have fin: "finite ?S" by simp
  have ne: "?S \<noteq> {}" using assms by auto
  show ?thesis
  proof
    assume eq: "count_list vs v = Max ?S"
    show "\<forall>w \<in> set vs. count_list vs w \<le> count_list vs v"
    proof
      fix w assume "w \<in> set vs"
      then have "count_list vs w \<in> ?S" by simp
      then have "count_list vs w \<le> Max ?S" using fin by (rule Max_ge [rotated])
      then show "count_list vs w \<le> count_list vs v" by (simp only: eq)
    qed
  next
    assume le: "\<forall>w \<in> set vs. count_list vs w \<le> count_list vs v"
    have "count_list vs v \<in> ?S" using assms by simp
    moreover have "\<forall>n \<in> ?S. n \<le> count_list vs v" using le by auto
    ultimately show "count_list vs v = Max ?S"
      using fin by (metis Max_eqI)
  qed
qed

lemma set_mode: "set (mode col) = {m. is_mode col m}"
proof (cases "dropna col = []")
  case True
  then have "set (dropna col) = {}" by (simp only: set_empty)
  then show ?thesis using True by (auto simp: mode_def is_mode_def simp del: set_dropna)
next
  case False
  let ?vs = "dropna col"
  have "set (mode col) = {v \<in> set ?vs. count_list ?vs v = Max (set (map (count_list ?vs) ?vs))}"
    using False by (simp add: mode_def Let_def del: set_dropna)
  also have "\<dots> = {v \<in> set ?vs. \<forall>w \<in> set ?vs. count_list ?vs w \<le> count_list ?vs v}"
    using Max_count_iff [of _ ?vs] by blast
  also have "\<dots> = {m. is_mode col m}"
    by (auto simp: is_mode_def count_list_dropna simp del: set_dropna)
  finally show ?thesis .
qed

lemma sorted_mode: "sorted (mode col)"
  by (simp add: mode_def Let_def)

lemma mode_nonempty:
  assumes "dropna col \<noteq> []"
  shows "mode col \<noteq> []"
proof -
  let ?vs = "dropna col"
  let ?S = "set (map (count_list ?vs) ?vs)"
  have "finite ?S" by (rule finite_set)
  moreover have "?S \<noteq> {}" using assms by (simp del: set_dropna)
  ultimately have "Max ?S \<in> ?S" by (rule Max_in)
  then obtain v where v: "v \<in> set ?vs" "count_list ?vs v = Max ?S" by auto
  then have "\<forall>w \<in> set ?vs. count_list ?vs w \<le> count_list ?vs v"
    by (simp only: Max_count_iff [OF v(1)])
  then have "is_mode col v" using v(1) by (simp add: is_mode_def count_list_dropna del: set_dropna)
  then have "v \<in> set (mode col)" by (simp only: set_mode mem_Collect_eq)
  then show ?thesis by auto
qed

lemma mode0_least_mode:
  assumes "dropna col \<noteq> []"
  shows "\<exists>m. mode0 col = Inr m \<and> is_mode col m \<and> (\<forall>m'. is_mode col m' \<longrightarrow> m \<le> m')"
proof -
  obtain m ms where ms: "mode col = m # ms"
    using mode_nonempty [OF assms] by (cases "mode col") auto
  have 1: "mode0 col = Inr m" by (simp add: mode0_def ms)
  have "m \<in> set (mode col)" by (simp add: ms)
  then have 2: "is_mode col m" by (simp only: set_mode mem_Collect_eq)
  have "sorted (m # ms)" using sorted_mode [of col] by (simp only: ms)
  then have le: "\<forall>x \<in> set (m # ms). m \<le> x" by auto
  have 3: "\<forall>m'. is_mode col m' \<longrightarrow> m \<le> m'"
  proof (intro allI impI)
    fix m' assume "is_mode col m'"
    then have "m' \<in> set (mode col)" by (simp only: set_mode mem_Collect_eq)
    then show "m \<le> m'" using le by (simp only: ms)
  qed
  from 1 2 3 show ?thesis by blast
qed

lemma mode0_raises: "dropna col = [] \<Longrightarrow> mode0 col = Inl KeyError"
  by (simp add: mode0_def mode_def)

lemma mode0_Inl_iff: "mode0 col = Inl e \<longleftrightarrow> dropna col = [] \<and> e = KeyError"
proof (cases "dropna col = []")
  case True
  then show ?thesis by (auto simp: mode0_raises)
next
  case False
  then obtain m where "mode0 col = Inr m" using mode0_least_mode by blast
  with False show ?thesis by simp
qed

lemma agg_Inr_iff:
  "agg f groups = Inr out \<longleftrightarrow> list_all2 (\<lambda>(k, g) (k', v). k' = k \<and> f g = Inr v) groups out"
proof (induction groups arbitrary: out)
  case Nil
  then show ?case by auto
next
  case (Cons a groups)
  obtain k g where a: "a = (k, g)" by (cases a)
  show ?case
    unfolding a
    by (cases out) (auto simp: Cons.IH [symmetric] split: sum.splits)
qed

lemma agg_Inl:
  "agg f groups = Inl e \<Longrightarrow> \<exists>(k, g) \<in> set groups. f g = Inl e"
proof (induction groups)
  case Nil
  then show ?case by simp
next
  case (Cons a groups)
  obtain k g where a: "a = (k, g)" by (cases a)
  from Cons show ?case
    unfolding a by (auto split: sum.splits)
qed

lemma agg_total:
  "\<forall>(k, g) \<in> set groups. \<exists>v. f g = Inr v \<Longrightarrow> \<exists>out. agg f groups = Inr out"
proof (induction groups)
  case Nil
  then show ?case by simp
next
  case (Cons a groups)
  obtain k g where a: "a = (k, g)" by (cases a)
  from Cons show ?case
    unfolding a by (auto split: sum.splits)
qed

lemma agg_keys: "agg f groups = Inr out \<Longrightarrow> map fst out = map fst groups"
proof -
  assume "agg f groups = Inr out"
  then have "list_all2 (\<lambda>(k, g) (k', v). k' = k \<and> f g = Inr v) groups out"
    by (simp only: agg_Inr_iff)
  then have "list_all2 (\<lambda>a b. fst b = fst a) groups out"
    by (rule list_all2_mono) auto
  then have "list_all2 (\<lambda>x y. x = y) (map fst out) (map fst groups)"
    by (simp add: list_all2_map1 list_all2_map2 list_all2_conv_all_nth)
  then show ?thesis by (simp add: list_all2_eq)
qed

lemma agg_rows:
  "agg f groups = Inr out \<Longrightarrow> (k, v) \<in> set out \<Longrightarrow> \<exists>g. (k, g) \<in> set groups \<and> f g = Inr v"
proof -
  assume "agg f groups = Inr out" and kv: "(k, v) \<in> set out"
  then have la: "list_all2 (\<lambda>(k, g) (k', v). k' = k \<and> f g = Inr v) groups out"
    by (simp only: agg_Inr_iff)
  from kv obtain i where i: "i < length out" "out ! i = (k, v)"
    by (auto simp: in_set_conv_nth)
  from la have len: "length groups = length out" by (rule list_all2_lengthD)
  from la i(1) have "(\<lambda>(k, g) (k', v). k' = k \<and> f g = Inr v) (groups ! i) (out ! i)"
    by (simp add: list_all2_conv_all_nth)
  then have "groups ! i = (k, snd (groups ! i)) \<and> f (snd (groups ! i)) = Inr v"
    by (simp add: i(2) case_prod_unfold prod_eq_iff)
  moreover have "groups ! i \<in> set groups" using i(1) len by simp
  ultimately show ?thesis by metis
qed

lemma variable_kind:
  "v \<in> {V_Monthly_Usage_kWh, V_Cost_Savings_USD, V_Household_Size} \<or>
   v \<in> {V_Income_Level, V_Urban_Rural}"
  by (cases v) simp_all

lemma country_avg_keys:
  assumes "country_avg data y v = Inr out"
  shows "map fst out = sorted_list_of_set {c. \<exists>r \<in> set data. Year r = y \<and> Country r = Some c}"
proof -
  have "map fst out = map fst (groupby Country (filtered_data data y))"
    using variable_kind [of v]
  proof
    assume "v \<in> {V_Monthly_Usage_kWh, V_Cost_Savings_USD, V_Household_Size}"
    then have "out = map (\<lambda>(c, g). (c, to_cell (mean (map (numeric_column v) g))))
            (groupby Country (filtered_data data y))"
      using assms by (simp only: country_avg_numeric sum.inject)
    then show ?thesis by (simp add: comp_def case_prod_unfold)
  next
    assume "v \<in> {V_Income_Level, V_Urban_Rural}"
    then have "agg (\<lambda>g. map_sum id Str (mode0 (map (categorical_column v) g)))
       (groupby Country (filtered_data data y)) = Inr out"
      using assms by (simp only: country_avg_categorical)
    then show ?thesis by (rule agg_keys)
  qed
  then show ?thesis by (simp only: country_groups_keys)
qed

lemma categorical_rows:
  assumes "v \<in> {V_Income_Level, V_Urban_Rural}"
    and "country_avg data y v = Inr out" and "(c, x) \<in> set out"
  shows "map_sum id Str (mode0 (map (categorical_column v)
           (filter (\<lambda>r. Year r = y \<and> Country r = Some c) data))) = Inr x"
proof -
  have "agg (\<lambda>g. map_sum id Str (mode0 (map (categorical_column v) g)))
       (groupby Country (filtered_data data y)) = Inr out"
    using assms(1,2) by (simp only: country_avg_categorical)
  then obtain g where g: "(c, g) \<in> set (groupby Country (filtered_data data y))"
      "map_sum id Str (mode0 (map (categorical_column v) g)) = Inr x"
    using assms(3) agg_rows by fastforce
  from g(1) have "g = filter (\<lambda>r. Year r = y \<and> Country r = Some c) data"
    by (simp only: groupby_rows filter_country_year)
  with g(2) show ?thesis by simp
qed

lemma categorical_total:
  assumes "v \<in> {V_Income_Level, V_Urban_Rural}"
    and "\<forall>c. (\<exists>r \<in> set data. Year r = y \<and> Country r = Some c) \<longrightarrow>
           dropna (map (categorical_column v)
             (filter (\<lambda>r. Year r = y \<and> Country r = Some c) data)) \<noteq> []"
  shows "\<exists>out. country_avg data y v = Inr out"
proof -
  have "\<forall>(c, g) \<in> set (groupby Country (filtered_data data y)).
          \<exists>x. map_sum id Str (mode0 (map (categorical_column v) g)) = Inr x"
  proof (clarify)
    fix c g assume "(c, g) \<in> set (groupby Country (filtered_data data y))"
    then have g: "g = filter (\<lambda>r. Year r = y \<and> Country r = Some c) data"
      and ex: "\<exists>r \<in> set data. Year r = y \<and> Country r = Some c"
      by (simp_all only: groupby_rows filter_country_year country_in_year)
    from ex assms(2) have "dropna (map (categorical_column v) g) \<noteq> []"
      by (simp only: g) blast
    then obtain m where "mode0 (map (categorical_column v) g) = Inr m"
      using mode0_least_mode by blast
    then show "\<exists>x. map_sum id Str (mode0 (map (categorical_column v) g)) = Inr x"
      by simp
  qed
  then have "\<exists>out. agg (\<lambda>g. map_sum id Str (mode0 (map (categorical_column v) g)))
       (groupby Country (filtered_data data y)) = Inr out"
    by (rule agg_total)
  then show ?thesis using assms(1) by (simp only: country_avg_categorical)
qed

lemma country_avg_Inl:
  assumes "country_avg data y v = Inl e"
  shows "v \<in> {V_Income_Level, V_Urban_Rural} \<and> e = KeyError \<and>
     (\<exists>c. (\<exists>r \<in> set data. Year r = y \<and> Country r = Some c) \<and>
        dropna (map (categorical_column v)
          (filter (\<lambda>r. Year r = y \<and> Country r = Some c) data)) = [])"
proof -
  have cat: "v \<in> {V_Income_Level, V_Urban_Rural}"
    using variable_kind [of v] assms country_avg_numeric [of v data y] by auto
  then have "agg (\<lambda>g. map_sum id Str (mode0 (map (categorical_column v) g)))
       (groupby Country (filtered_data data y)) = Inl e"
    using assms by (simp only: country_avg_categorical)
  then obtain c g where g: "(c, g) \<in> set (groupby Country (filtered_data data y))"
      "map_sum id Str (mode0 (map (categorical_column v) g)) = Inl e"
    using agg_Inl by fastforce
  from g(1) have gd: "g = filter (\<lambda>r. Year r = y \<and> Country r = Some c) data"
      and ex: "\<exists>r \<in> set data. Year r = y \<and> Country r = Some c"
    by (simp_all only: groupby_rows filter_country_year country_in_year)
  from g(2) have "mode0 (map (categorical_column v) g) = Inl e"
    by (cases "mode0 (map (categorical_column v) g)") simp_all
  then have "dropna (map (categorical_column v) g) = [] \<and> e = KeyError"
    by (simp only: mode0_Inl_iff)
  with cat ex gd show ?thesis by blast
qed

text \<open>
  Claim C9. The reduction of line 163, applied to a column with at least one value
  present, returns a most frequent value that is less than or equal to every most
  frequent value: among several equally frequent candidates it returns the smallest.
  Whenever the categorical map view returns a table, the value of each of its countries
  is that smallest most frequent value of the country's rows in the selected year. The
  reduction is a function of the column, so it is the same in every run.
\<close>

theorem mode_tie_break_smallest:
  "(dropna col \<noteq> [] \<longrightarrow>
      (\<exists>m. mode0 col = Inr m \<and> is_mode col m \<and> (\<forall>m'. is_mode col m' \<longrightarrow> m \<le> m')))
   \<and> (v \<in> {V_Income_Level, V_Urban_Rural} \<and> country_avg data y v = Inr out \<and> (c, x) \<in> set out \<longrightarrow>
      (\<exists>m. x = Str m
         \<and> is_mode (map (categorical_column v)
              (filter (\<lambda>r. Year r = y \<and> Country r = Some c) data)) m
         \<and> (\<forall>m'. is_mode (map (categorical_column v)
              (filter (\<lambda>r. Year r = y \<and> Country r = Some c) data)) m' \<longrightarrow> m \<le> m')))"
proof (intro conjI impI)
  assume "dropna col \<noteq> []"
  then show "\<exists>m. mode0 col = Inr m \<and> is_mode col m \<and> (\<forall>m'. is_mode col m' \<longrightarrow> m \<le> m')"
    by (rule mode0_least_mode)
next
  let ?col = "map (categorical_column v) (filter (\<lambda>r. Year r = y \<and> Country r = Some c) data)"
  assume a: "v \<in> {V_Income_Level, V_Urban_Rural} \<and> country_avg data y v = Inr out \<and> (c, x) \<in> set out"
  then have r: "map_sum id Str (mode0 ?col) = Inr x"
    using categorical_rows by blast
  then obtain m where m: "mode0 ?col = Inr m" "x = Str m"
    by (cases "mode0 ?col") auto
  then have "dropna ?col \<noteq> []"
    using mode0_raises [of ?col] by auto
  then obtain m2 where "mode0 ?col = Inr m2" "is_mode ?col m2" "\<forall>m'. is_mode ?col m' \<longrightarrow> m2 \<le> m'"
    using mode0_least_mode by blast
  with m show "\<exists>m. x = Str m \<and> is_mode ?col m \<and> (\<forall>m'. is_mode ?col m' \<longrightarrow> m \<le> m')"
    by auto
qed

lemma map_example_categorical:
  "country_avg map_example 2015 V_Urban_Rural =
     Inr [(''Brazil'', Str ''Rural''), (''India'', Str ''Urban'')]"
  by (simp add: country_avg_def filtered_data_def groupby_def mode0_def mode_def
      categorical_column_def map_example_def blank_row_def)

text \<open>
  \<^verbatim>\<open>Urban\<close> and \<^verbatim>\<open>Rural\<close> both occur twice; the reduction returns \<^verbatim>\<open>Rural\<close>. In
  \<open>map_example\<close> Brazil has one row of each in 2015.
\<close>

theorem mode_tie_break_smallest_witness:
  "dropna [Some ''Urban'', Some ''Rural'', None, Some ''Rural'', Some ''Urban''] \<noteq> []
   \<and> mode0 [Some ''Urban'', Some ''Rural'', None, Some ''Rural'', Some ''Urban''] = Inr ''Rural''
   \<and> is_mode [Some ''Urban'', Some ''Rural'', None, Some ''Rural'', Some ''Urban''] ''Urban''
   \<and> is_mode [Some ''Urban'', Some ''Rural'', None, Some ''Rural'', Some ''Urban''] ''Rural''
   \<and> V_Urban_Rural \<in> {V_Income_Level, V_Urban_Rural}
   \<and> country_avg map_example 2015 V_Urban_Rural =
        Inr [(''Brazil'', Str ''Rural''), (''India'', Str ''Urban'')]
   \<and> (''Brazil'', Str ''Rural'') \<in> set [(''Brazil'', Str ''Rural''), (''India'', Str ''Urban'')]
   \<and> is_mode (map (categorical_column V_Urban_Rural)
        (filter (\<lambda>r. Year r = 2015 \<and> Country r = Some ''Brazil'') map_example)) ''Urban''"
proof -
  let ?col = "[Some ''Urban'', Some ''Rural'', None, Some ''Rural'', Some ''Urban'']"
  have ne: "dropna ?col \<noteq> []" by simp
  have ev: "mode0 ?col = Inr ''Rural''"
    by (simp add: mode0_def mode_def)
  have m1: "is_mode ?col ''Urban''" and m2: "is_mode ?col ''Rural''"
    by (simp_all add: is_mode_def)
  have m3: "is_mode (map (categorical_column V_Urban_Rural)
        (filter (\<lambda>r. Year r = 2015 \<and> Country r = Some ''Brazil'') map_example)) ''Urban''"
    by (simp add: is_mode_def categorical_column_def map_example_def blank_row_def)
  from mode_tie_break_smallest [of ?col V_Urban_Rural map_example 2015
      "[(''Brazil'', Str ''Rural''), (''India'', Str ''Urban'')]" "''Brazil''" "Str ''Rural''"]
    ne ev m1 m2 m3 map_example_categorical
  show ?thesis by simp
qed

lemma categorical_column_fields:
  "categorical_column V_Income_Level = Income_Level"
  "categorical_column V_Urban_Rural = Urban_Rural"
  by (simp_all add: fun_eq_iff categorical_column_def)

lemma categorical_raises:
  assumes "v \<in> {V_Income_Level, V_Urban_Rural}"
    and "\<exists>r \<in> set data. Year r = y \<and> Country r = Some c"
    and "List.map_filter (categorical_column v)
           (filter (\<lambda>r. Year r = y \<and> Country r = Some c) data) = []"
  shows "country_avg data y v = Inl KeyError"
proof (cases "country_avg data y v")
  case (Inl e)
  then show ?thesis using country_avg_Inl by blast
next
  case (Inr out)
  let ?col = "map (categorical_column v) (filter (\<lambda>r. Year r = y \<and> Country r = Some c) data)"
  have "map fst out =
      sorted_list_of_set {c. \<exists>r \<in> set data. Year r = y \<and> Country r = Some c}"
    using Inr by (rule country_avg_keys)
  moreover have "finite {c. \<exists>r \<in> set data. Year r = y \<and> Country r = Some c}"
    using finite_keys [of "filtered_data data y" Country] by (simp only: country_in_year)
  ultimately have "set (map fst out) = {c. \<exists>r \<in> set data. Year r = y \<and> Country r = Some c}"
    by (simp only: sorted_list_of_set.set_sorted_key_list_of_set)
  then have "c \<in> set (map fst out)" using assms(2) by blast
  then obtain x where "(c, x) \<in> set out" by auto
  then have "map_sum id Str (mode0 ?col) = Inr x"
    using assms(1) Inr categorical_rows by blast
  moreover have "dropna ?col = []"
    using assms(3) by (simp only: dropna_map)
  then have "mode0 ?col = Inl KeyError" by (rule mode0_raises)
  ultimately show ?thesis by simp
qed

text \<open>
  Claim C5. Where the categorical map view returns a table, its values are the modes the
  claim describes (\<open>mode0_least_mode\<close>, \<open>categorical_rows\<close>), and it returns one
  whenever every country of the selected year has a value present
  (\<open>categorical_total\<close>). The code breaks the claim at every table in which some country
  of the selected year has rows but no value of the selected variable present, for
  \<^verbatim>\<open>Income_Level\<close> as for \<^verbatim>\<open>Urban_Rural\<close>: \<^verbatim>\<open>x.mode()\<close> is empty for that country,
  \<^verbatim>\<open>[0]\<close> raises, and the view returns no table, not even for the countries that
  have a mode. The numeric branch of the same \<^verbatim>\<open>if\<close> does not fail there: a country
  without a value present gets a row with NaN.
\<close>

theorem country_avg_mode_raises_where_no_value:
  "((\<exists>r \<in> set data. Year r = y \<and> Country r = Some c) \<and>
      List.map_filter Income_Level (filter (\<lambda>r. Year r = y \<and> Country r = Some c) data) = [] \<longrightarrow>
      country_avg data y V_Income_Level = Inl KeyError)
   \<and> ((\<exists>r \<in> set data. Year r = y \<and> Country r = Some c) \<and>
      List.map_filter Urban_Rural (filter (\<lambda>r. Year r = y \<and> Country r = Some c) data) = [] \<longrightarrow>
      country_avg data y V_Urban_Rural = Inl KeyError)
   \<and> ((\<exists>r \<in> set data. Year r = y \<and> Country r = Some c) \<and>
      List.map_filter Monthly_Usage_kWh (filter (\<lambda>r. Year r = y \<and> Country r = Some c) data) = [] \<longrightarrow>
      (\<exists>out. country_avg data y V_Monthly_Usage_kWh = Inr out \<and> (c, NaN) \<in> set out))
   \<and> country_avg [(blank_row 2015)\<lparr>Country := Some ''India''\<rparr>] 2015 V_Urban_Rural = Inl KeyError
   \<and> country_avg [(blank_row 2015)\<lparr>Country := Some ''India''\<rparr>] 2015 V_Monthly_Usage_kWh =
       Inr [(''India'', NaN)]"
proof (intro conjI impI)
  assume "(\<exists>r \<in> set data. Year r = y \<and> Country r = Some c) \<and>
      List.map_filter Income_Level (filter (\<lambda>r. Year r = y \<and> Country r = Some c) data) = []"
  then show "country_avg data y V_Income_Level = Inl KeyError"
    using categorical_raises [of V_Income_Level data y c]
    by (simp only: categorical_column_fields) simp
next
  assume "(\<exists>r \<in> set data. Year r = y \<and> Country r = Some c) \<and>
      List.map_filter Urban_Rural (filter (\<lambda>r. Year r = y \<and> Country r = Some c) data) = []"
  then show "country_avg data y V_Urban_Rural = Inl KeyError"
    using categorical_raises [of V_Urban_Rural data y c]
    by (simp only: categorical_column_fields) simp
next
  let ?g = "filter (\<lambda>r. Year r = y \<and> Country r = Some c) data"
  assume a: "(\<exists>r \<in> set data. Year r = y \<and> Country r = Some c) \<and>
      List.map_filter Monthly_Usage_kWh ?g = []"
  let ?out = "map (\<lambda>(c, g). (c, to_cell (mean (map (numeric_column V_Monthly_Usage_kWh) g))))
            (groupby Country (filtered_data data y))"
  have 1: "country_avg data y V_Monthly_Usage_kWh = Inr ?out"
    by (rule country_avg_numeric) simp
  have "to_cell (arithmetic_mean (map (numeric_column V_Monthly_Usage_kWh) ?g)) = NaN"
    using a by (simp only: to_cell_mean numeric_column_fields) simp
  with a have "(c, NaN) \<in> set ?out"
    by (simp only: numeric_rows)
  with 1 show "\<exists>out. country_avg data y V_Monthly_Usage_kWh = Inr out \<and> (c, NaN) \<in> set out"
    by blast
next
  show "country_avg [(blank_row 2015)\<lparr>Country := Some ''India''\<rparr>] 2015 V_Urban_Rural = Inl KeyError"
    by (simp add: country_avg_def filtered_data_def groupby_def mode0_def mode_def
        categorical_column_def blank_row_def)
  show "country_avg [(blank_row 2015)\<lparr>Country := Some ''India''\<rparr>] 2015 V_Monthly_Usage_kWh =
       Inr [(''India'', NaN)]"
    by (simp add: country_avg_def filtered_data_def groupby_def mean_def to_cell_def
        numeric_column_def blank_row_def)
qed

text \<open>
  In \<open>missing_example\<close> India has modes for both categorical variables and Peru has no
  value of either.
\<close>

lemma missing_example_views:
  "country_avg missing_example 2015 V_Income_Level = Inl KeyError"
  "country_avg missing_example 2015 V_Urban_Rural = Inl KeyError"
  "country_avg missing_example 2015 V_Monthly_Usage_kWh = Inr [(''India'', NaN), (''Peru'', Num 40)]"
  by (simp_all add: country_avg_def filtered_data_def groupby_def mode0_def mode_def mean_def
      to_cell_def categorical_column_def numeric_column_def missing_example_def blank_row_def)

theorem country_avg_mode_raises_where_no_value_witness:
  "(\<exists>r \<in> set missing_example. Year r = 2015 \<and> Country r = Some ''Peru'')
   \<and> List.map_filter Income_Level
        (filter (\<lambda>r. Year r = 2015 \<and> Country r = Some ''Peru'') missing_example) = []
   \<and> List.map_filter Urban_Rural
        (filter (\<lambda>r. Year r = 2015 \<and> Country r = Some ''Peru'') missing_example) = []
   \<and> List.map_filter Urban_Rural
        (filter (\<lambda>r. Year r = 2015 \<and> Country r = Some ''India'') missing_example) =
        [''Urban'', ''Rural'', ''Urban'']
   \<and> country_avg missing_example 2015 V_Income_Level = Inl KeyError
   \<and> country_avg missing_example 2015 V_Urban_Rural = Inl KeyError
   \<and> (\<exists>r \<in> set missing_example. Year r = 2015 \<and> Country r = Some ''India'')
   \<and> List.map_filter Monthly_Usage_kWh
        (filter (\<lambda>r. Year r = 2015 \<and> Country r = Some ''India'') missing_example) = []
   \<and> country_avg missing_example 2015 V_Monthly_Usage_kWh =
        Inr [(''India'', NaN), (''Peru'', Num 40)]"
proof -
  have p: "\<exists>r \<in> set missing_example. Year r = 2015 \<and> Country r = Some ''Peru''"
    and i: "\<exists>r \<in> set missing_example. Year r = 2015 \<and> Country r = Some ''India''"
    by (simp_all add: missing_example_def blank_row_def)
  have l: "List.map_filter Income_Level
        (filter (\<lambda>r. Year r = 2015 \<and> Country r = Some ''Peru'') missing_example) = []"
     "List.map_filter Urban_Rural
        (filter (\<lambda>r. Year r = 2015 \<and> Country r = Some ''Peru'') missing_example) = []"
     "List.map_filter Urban_Rural
        (filter (\<lambda>r. Year r = 2015 \<and> Country r = Some ''India'') missing_example) =
        [''Urban'', ''Rural'', ''Urban'']"
     "List.map_filter Monthly_Usage_kWh
        (filter (\<lambda>r. Year r = 2015 \<and> Country r = Some ''India'') missing_example) = []"
    by (simp_all add: List.map_filter_def missing_example_def blank_row_def)
  from country_avg_mode_raises_where_no_value [of missing_example 2015 "''Peru''"]
    country_avg_mode_raises_where_no_value [of missing_example 2015 "''India''"] p i l
  show ?thesis
    by (simp add: missing_example_views)
qed

text \<open>
  Claim C7, as the code has it. A group without rows gives no output row: a pair
  (\<^verbatim>\<open>Year\<close>, \<^verbatim>\<open>Energy_Source\<close>) or (\<^verbatim>\<open>Year\<close>, \<^verbatim>\<open>Income_Level\<close>) that no row has (rows
  with a missing key belong to no group) is absent from the means of lines 38 and 66,
  and a country without a row in the selected year is absent from every table that the
  map view returns. Such a group raises nothing: the two means are total, the numeric
  map view always returns a table, and when the map view fails, a country that does
  have rows in the selected year has no value present. A group that has rows, all of
  them with the value missing, does give an output row in the two means: its mean is
  missing (NaN).
\<close>

theorem absent_groups_no_row:
  "(\<forall>y' e. \<not> (\<exists>r \<in> set data. Year r = y' \<and> Energy_Source r = Some e) \<longrightarrow>
       (y', e) \<notin> fst ` set (avg_usage data))
   \<and> (\<forall>y' l. \<not> (\<exists>r \<in> set data. Year r = y' \<and> Income_Level r = Some l) \<longrightarrow>
       (y', l) \<notin> fst ` set (avg_savings data))
   \<and> (\<forall>out c. country_avg data y v = Inr out \<and>
         \<not> (\<exists>r \<in> set data. Year r = y \<and> Country r = Some c) \<longrightarrow> c \<notin> fst ` set out)
   \<and> (v \<in> {V_Monthly_Usage_kWh, V_Cost_Savings_USD, V_Household_Size} \<longrightarrow>
         (\<exists>out. country_avg data y v = Inr out))
   \<and> (\<forall>e. country_avg data y v = Inl e \<longrightarrow>
         (\<exists>c. (\<exists>r \<in> set data. Year r = y \<and> Country r = Some c) \<and>
            dropna (map (categorical_column v)
              (filter (\<lambda>r. Year r = y \<and> Country r = Some c) data)) = []))
   \<and> (\<forall>y' e. (\<exists>r \<in> set data. Year r = y' \<and> Energy_Source r = Some e) \<and>
         dropna (map Monthly_Usage_kWh
           (filter (\<lambda>r. Year r = y' \<and> Energy_Source r = Some e) data)) = [] \<longrightarrow>
         ((y', e), None) \<in> set (avg_usage data))
   \<and> (\<forall>y' l. (\<exists>r \<in> set data. Year r = y' \<and> Income_Level r = Some l) \<and>
         dropna (map Cost_Savings_USD
           (filter (\<lambda>r. Year r = y' \<and> Income_Level r = Some l) data)) = [] \<longrightarrow>
         ((y', l), None) \<in> set (avg_savings data))"
proof -
  have 1: "\<forall>y' e. \<not> (\<exists>r \<in> set data. Year r = y' \<and> Energy_Source r = Some e) \<longrightarrow>
       (y', e) \<notin> fst ` set (avg_usage data)"
  proof (intro allI impI notI)
    fix y' e assume "(y', e) \<in> fst ` set (avg_usage data)"
    then obtain m where "((y', e), m) \<in> set (avg_usage data)" by auto
    moreover assume "\<not> (\<exists>r \<in> set data. Year r = y' \<and> Energy_Source r = Some e)"
    ultimately show False by (simp add: avg_usage_rows)
  qed
  have 2: "\<forall>y' l. \<not> (\<exists>r \<in> set data. Year r = y' \<and> Income_Level r = Some l) \<longrightarrow>
       (y', l) \<notin> fst ` set (avg_savings data)"
  proof (intro allI impI notI)
    fix y' l assume "(y', l) \<in> fst ` set (avg_savings data)"
    then obtain m where "((y', l), m) \<in> set (avg_savings data)" by auto
    moreover assume "\<not> (\<exists>r \<in> set data. Year r = y' \<and> Income_Level r = Some l)"
    ultimately show False by (simp add: avg_savings_rows)
  qed
  have 3: "\<forall>out c. country_avg data y v = Inr out \<and>
         \<not> (\<exists>r \<in> set data. Year r = y \<and> Country r = Some c) \<longrightarrow> c \<notin> fst ` set out"
  proof (intro allI impI)
    fix out c
    assume a: "country_avg data y v = Inr out \<and>
         \<not> (\<exists>r \<in> set data. Year r = y \<and> Country r = Some c)"
    then have "map fst out =
        sorted_list_of_set {c. \<exists>r \<in> set data. Year r = y \<and> Country r = Some c}"
      using country_avg_keys by blast
    moreover have "finite {c. \<exists>r \<in> set data. Year r = y \<and> Country r = Some c}"
      using finite_keys [of "filtered_data data y" Country] by (simp only: country_in_year)
    ultimately have "set (map fst out) = {c. \<exists>r \<in> set data. Year r = y \<and> Country r = Some c}"
      by (simp only: sorted_list_of_set.set_sorted_key_list_of_set)
    with a show "c \<notin> fst ` set out" by (simp only: set_map) blast
  qed
  have 4: "v \<in> {V_Monthly_Usage_kWh, V_Cost_Savings_USD, V_Household_Size} \<longrightarrow>
         (\<exists>out. country_avg data y v = Inr out)"
    using country_avg_numeric by blast
  have 5: "\<forall>e. country_avg data y v = Inl e \<longrightarrow>
         (\<exists>c. (\<exists>r \<in> set data. Year r = y \<and> Country r = Some c) \<and>
            dropna (map (categorical_column v)
              (filter (\<lambda>r. Year r = y \<and> Country r = Some c) data)) = [])"
    using country_avg_Inl by blast
  have 6: "\<forall>y' e. (\<exists>r \<in> set data. Year r = y' \<and> Energy_Source r = Some e) \<and>
         dropna (map Monthly_Usage_kWh
           (filter (\<lambda>r. Year r = y' \<and> Energy_Source r = Some e) data)) = [] \<longrightarrow>
         ((y', e), None) \<in> set (avg_usage data)"
    by (simp add: avg_usage_rows arithmetic_mean_def del: set_dropna)
  have 7: "\<forall>y' l. (\<exists>r \<in> set data. Year r = y' \<and> Income_Level r = Some l) \<and>
         dropna (map Cost_Savings_USD
           (filter (\<lambda>r. Year r = y' \<and> Income_Level r = Some l) data)) = [] \<longrightarrow>
         ((y', l), None) \<in> set (avg_savings data)"
    by (simp add: avg_savings_rows arithmetic_mean_def del: set_dropna)
  from 1 2 3 4 5 6 7 show ?thesis by blast
qed

theorem absent_groups_no_row_witness:
  "\<not> (\<exists>r \<in> set savings_example. Year r = 2016 \<and> Energy_Source r = Some ''Solar'')
   \<and> avg_usage savings_example = [((2016, ''Wind''), None)]
   \<and> \<not> (\<exists>r \<in> set savings_example. Year r = 2016 \<and> Income_Level r = Some ''Low'')
   \<and> avg_savings savings_example =
       [((2015, ''High''), Some 40), ((2015, ''Low''), None), ((2016, ''High''), None)]
   \<and> \<not> (\<exists>r \<in> set map_example. Year r = 2015 \<and> Country r = Some ''Chile'')
   \<and> country_avg map_example 2015 V_Urban_Rural =
        Inr [(''Brazil'', Str ''Rural''), (''India'', Str ''Urban'')]
   \<and> ''Chile'' \<notin> fst ` set [(''Brazil'', Str ''Rural''), (''India'', Str ''Urban'')]
   \<and> (\<exists>r \<in> set savings_example. Year r = 2015 \<and> Income_Level r = Some ''Low'')
   \<and> dropna (map Cost_Savings_USD
        (filter (\<lambda>r. Year r = 2015 \<and> Income_Level r = Some ''Low'') savings_example)) = []
   \<and> ((2015, ''Low''), None) \<in> set (avg_savings savings_example)"
proof -
  have u: "avg_usage savings_example = [((2016, ''Wind''), None)]"
    by (simp add: avg_usage_def groupby_def mean_def savings_example_def blank_row_def)
  have s: "avg_savings savings_example =
       [((2015, ''High''), Some 40), ((2015, ''Low''), None), ((2016, ''High''), None)]"
    by (simp add: avg_savings_def groupby_def mean_def savings_example_def blank_row_def)
  have a1: "\<not> (\<exists>r \<in> set savings_example. Year r = 2016 \<and> Energy_Source r = Some ''Solar'')"
    and a2: "\<not> (\<exists>r \<in> set savings_example. Year r = 2016 \<and> Income_Level r = Some ''Low'')"
    and a3: "\<exists>r \<in> set savings_example. Year r = 2015 \<and> Income_Level r = Some ''Low''"
    and a4: "dropna (map Cost_Savings_USD
        (filter (\<lambda>r. Year r = 2015 \<and> Income_Level r = Some ''Low'') savings_example)) = []"
    by (simp_all add: savings_example_def blank_row_def)
  have a5: "\<not> (\<exists>r \<in> set map_example. Year r = 2015 \<and> Country r = Some ''Chile'')"
    by (simp add: map_example_def blank_row_def)
  from absent_groups_no_row [of savings_example 2015 V_Urban_Rural]
    absent_groups_no_row [of map_example 2015 V_Urban_Rural]
    a1 a2 a3 a4 a5 u s map_example_categorical
  show ?thesis by simp
qed

text \<open>
  Claim C7 as stated says that a (Year, category) combination whose rows are all missing
  the value gives no output row. The usage aggregation gives the row with a missing
  mean.
\<close>

theorem all_missing_group_has_row:
  "map Monthly_Usage_kWh [(blank_row 2015)\<lparr>Energy_Source := Some ''Solar''\<rparr>] = [None]
   \<and> avg_usage [(blank_row 2015)\<lparr>Energy_Source := Some ''Solar''\<rparr>] = [((2015, ''Solar''), None)]"
  by (simp add: avg_usage_def groupby_def mean_def blank_row_def)

end
